theory Spec2Isabelle
  imports Main
begin

section \<open>ColegiosPro service workers: the two variants\<close>

text \<open>
  The repository holds two service-worker scripts: \<^verbatim>\<open>static/sw.js\<close> (the application
  worker, bucket \<^verbatim>\<open>colegiospro-v1\<close>) and a second script (the landing-page worker,
  bucket \<^verbatim>\<open>colegiospro-landing-v1\<close>). Each registers listeners for browser events.
  A listener is modelled as a function from the event and the worker's world to the new
  world and what the listener hands to the browser. The browser interfaces the listeners
  call (Cache Storage, fetch, clients, notifications) are modelled next to them, as small
  as the listeners need them.
\<close>

subsection \<open>JavaScript values\<close>

text \<open>
  The values a push payload, a notification's data and a message can hold. Numbers are
  the integer-valued ones; \<open>Undefined\<close> is the value of a property that is absent.
\<close>

datatype jsval =
    Undefined
  | Null
  | Bool bool
  | Num int
  | Str string
  | Arr "jsval list"
  | Obj "(string \<times> jsval) list"

text \<open>JavaScript's truthiness, as tested by \<^verbatim>\<open>||\<close>, \<^verbatim>\<open>&&\<close> and \<^verbatim>\<open>if\<close>.\<close>

fun truthy :: "jsval \<Rightarrow> bool" where
  "truthy Undefined = False"
| "truthy Null = False"
| "truthy (Bool b) = b"
| "truthy (Num n) = (n \<noteq> 0)"
| "truthy (Str s) = (s \<noteq> [])"
| "truthy (Arr xs) = True"
| "truthy (Obj kvs) = True"

text \<open>\<^verbatim>\<open>a || b\<close>\<close>

definition js_or :: "jsval \<Rightarrow> jsval \<Rightarrow> jsval" where
  "js_or a b = (if truthy a then a else b)"

text \<open>
  \<^verbatim>\<open>v.k\<close>: reading a property of \<^verbatim>\<open>undefined\<close> or \<^verbatim>\<open>null\<close> throws a TypeError
  (\<open>None\<close>). The listeners read the properties \<^verbatim>\<open>title\<close>, \<^verbatim>\<open>body\<close>, \<^verbatim>\<open>icon\<close>,
  \<^verbatim>\<open>url\<close>, \<^verbatim>\<open>chatMessage\<close> and \<^verbatim>\<open>type\<close> only, which no primitive or array has.
\<close>

fun get_prop :: "jsval \<Rightarrow> string \<Rightarrow> jsval option" where
  "get_prop Undefined k = None"
| "get_prop Null k = None"
| "get_prop (Obj kvs) k = (case map_of kvs k of Some v \<Rightarrow> Some v | None \<Rightarrow> Some Undefined)"
| "get_prop v k = Some Undefined"

text \<open>\<^verbatim>\<open>v?.k\<close>: optional chaining gives \<^verbatim>\<open>undefined\<close> where \<^verbatim>\<open>v.k\<close> would throw.\<close>

definition opt_chain :: "jsval \<Rightarrow> string \<Rightarrow> jsval" where
  "opt_chain v k = (case get_prop v k of Some x \<Rightarrow> x | None \<Rightarrow> Undefined)"

text \<open>\<^verbatim>\<open>s.includes(sub)\<close>: \<open>sub\<close> occurs in \<open>s\<close> as a contiguous substring.\<close>

fun js_includes :: "string \<Rightarrow> string \<Rightarrow> bool" where
  "js_includes [] sub = (sub = [])"
| "js_includes (c # s) sub = (take (length sub) (c # s) = sub \<or> js_includes s sub)"

subsection \<open>Requests, responses, the network\<close>

text \<open>
  A request as a fetch event holds it: its method, and its URL as \<^verbatim>\<open>request.url\<close>
  gives it, absolute and serialized (the scheme in lower case, the fragment after the
  first \<^verbatim>\<open>#\<close>).
\<close>

record request =
  req_method :: string
  req_url :: string

text \<open>The URL without its fragment; two URLs that differ in their fragments only.\<close>

definition without_fragment :: "string \<Rightarrow> string" where
  "without_fragment u = takeWhile (\<lambda>c. c \<noteq> CHR ''#'') u"

definition same_resource :: "string \<Rightarrow> string \<Rightarrow> bool" where
  "same_resource u v = (without_fragment u = without_fragment v)"

text \<open>The URL's scheme is \<^verbatim>\<open>http\<close> or \<^verbatim>\<open>https\<close>.\<close>

definition http_url :: "string \<Rightarrow> bool" where
  "http_url u = (take 7 u = ''http://'' \<or> take 8 u = ''https://'')"

record response =
  resp_status :: nat
  resp_body :: string

text \<open>\<^verbatim>\<open>response.ok\<close>: the status is in the range 200 to 299.\<close>

definition ok :: "response \<Rightarrow> bool" where
  "ok r = (200 \<le> resp_status r \<and> resp_status r \<le> 299)"

text \<open>
  What \<^verbatim>\<open>fetch(request)\<close> settles to: the promise rejects (offline, DNS failure) or
  resolves to a response, whatever its status.
\<close>

datatype net_result = NetworkError | Response response

type_synonym network = "request \<Rightarrow> net_result"

subsection \<open>Cache Storage\<close>

text \<open>
  A cache is a list of entries, each a request URL with the response stored for it (the
  Cache interface holds GET requests only); Cache Storage is the list of named caches in
  the order of their creation, which is the order \<^verbatim>\<open>caches.keys()\<close> enumerates and
  \<^verbatim>\<open>caches.match\<close> searches. A request matches an entry when their URLs are the same
  but for the fragments. Responses carry no headers here, so \<^verbatim>\<open>Vary\<close> plays no part,
  and the store has no quota.
\<close>

type_synonym cache = "(string \<times> response) list"
type_synonym cache_storage = "(string \<times> cache) list"

text \<open>
  The put operation of the Cache interface: the entries the request matches are removed,
  and the new entry is appended.
\<close>

definition store :: "string \<Rightarrow> response \<Rightarrow> cache \<Rightarrow> cache" where
  "store u r c = filter (\<lambda>kv. \<not> same_resource (fst kv) u) c @ [(u, r)]"

text \<open>
  \<^verbatim>\<open>cache.put(request, response)\<close>: the promise rejects with a TypeError (\<open>None\<close>), and
  nothing is stored, when the request's URL is not an http(s) one or the response's status
  is 206; otherwise the response is stored.
\<close>

definition cache_put :: "string \<Rightarrow> response \<Rightarrow> cache \<Rightarrow> cache option" where
  "cache_put u r c =
     (if http_url u \<and> resp_status r \<noteq> 206 then Some (store u r c) else None)"

text \<open>\<^verbatim>\<open>cache.match(request)\<close>: the response of the first entry the request matches.\<close>

definition cache_match :: "string \<Rightarrow> cache \<Rightarrow> response option" where
  "cache_match u c =
     (case find (\<lambda>kv. same_resource (fst kv) u) c of
        Some kv \<Rightarrow> Some (snd kv)
      | None \<Rightarrow> None)"

text \<open>\<^verbatim>\<open>caches.open(name)\<close>: the cache of that name, created empty when absent.\<close>

definition caches_open :: "string \<Rightarrow> cache_storage \<Rightarrow> cache_storage" where
  "caches_open n cs = (if n \<in> set (map fst cs) then cs else cs @ [(n, [])])"

text \<open>\<^verbatim>\<open>caches.keys()\<close>\<close>

definition caches_keys :: "cache_storage \<Rightarrow> string list" where
  "caches_keys cs = map fst cs"

text \<open>\<^verbatim>\<open>caches.delete(name)\<close>\<close>

definition caches_delete :: "string \<Rightarrow> cache_storage \<Rightarrow> cache_storage" where
  "caches_delete n cs = filter (\<lambda>nc. fst nc \<noteq> n) cs"

text \<open>
  \<^verbatim>\<open>caches.match(request)\<close>: the entry of the first cache, in creation order, that
  holds a match for the request; \<open>None\<close> is the promise resolving to \<^verbatim>\<open>undefined\<close>.
\<close>

fun caches_match :: "string \<Rightarrow> cache_storage \<Rightarrow> response option" where
  "caches_match u [] = None"
| "caches_match u ((n, c) # cs) =
     (case cache_match u c of Some r \<Rightarrow> Some r | None \<Rightarrow> caches_match u cs)"

text \<open>The cache of a name (empty when there is none), and the update of a named cache.\<close>

definition bucket :: "string \<Rightarrow> cache_storage \<Rightarrow> cache" where
  "bucket n cs = (case map_of cs n of Some c \<Rightarrow> c | None \<Rightarrow> [])"

definition in_bucket :: "string \<Rightarrow> (cache \<Rightarrow> cache) \<Rightarrow> cache_storage \<Rightarrow> cache_storage" where
  "in_bucket n f cs = map (\<lambda>nc. if fst nc = n then (fst nc, f (snd nc)) else nc) cs"

text \<open>
  \<^verbatim>\<open>cache.addAll(strings)\<close>. Each string is parsed into a URL against the worker's
  location; the parser is the browser's, a parameter here: \<open>parse s\<close> is the absolute,
  serialized URL, \<open>None\<close> when \<open>s\<close> is no URL. Every URL is fetched. The promise rejects
  (\<open>None\<close>), and nothing is stored, when a string does not parse, when a URL is not an
  http(s) one, when a fetch fails or answers with a status that is not ok or is 206, or
  when two of the URLs are the same but for their fragments. Otherwise every response is
  stored under its URL.
\<close>

fun parse_all :: "(string \<Rightarrow> string option) \<Rightarrow> string list \<Rightarrow> string list option" where
  "parse_all parse [] = Some []"
| "parse_all parse (s # ss) =
     (case parse s of
        None \<Rightarrow> None
      | Some u \<Rightarrow> (case parse_all parse ss of None \<Rightarrow> None | Some us \<Rightarrow> Some (u # us)))"

definition fetched :: "network \<Rightarrow> string \<Rightarrow> response option" where
  "fetched net u =
     (case net \<lparr>req_method = ''GET'', req_url = u\<rparr> of
        NetworkError \<Rightarrow> None
      | Response r \<Rightarrow> (if ok r \<and> resp_status r \<noteq> 206 then Some r else None))"

fun fetch_all :: "network \<Rightarrow> string list \<Rightarrow> (string \<times> response) list option" where
  "fetch_all net [] = Some []"
| "fetch_all net (u # us) =
     (case fetched net u of
        None \<Rightarrow> None
      | Some r \<Rightarrow> (case fetch_all net us of None \<Rightarrow> None | Some urs \<Rightarrow> Some ((u, r) # urs)))"

fun put_all :: "(string \<times> response) list \<Rightarrow> cache \<Rightarrow> cache" where
  "put_all [] c = c"
| "put_all ((u, r) # urs) c = put_all urs (store u r c)"

definition cache_addAll ::
  "(string \<Rightarrow> string option) \<Rightarrow> network \<Rightarrow> string list \<Rightarrow> cache \<Rightarrow> cache option" where
  "cache_addAll parse net ss c =
     (case parse_all parse ss of
        None \<Rightarrow> None
      | Some us \<Rightarrow>
          (if list_all http_url us
           then (case fetch_all net us of
                   None \<Rightarrow> None
                 | Some urs \<Rightarrow>
                     (if distinct (map without_fragment us) then Some (put_all urs c)
                      else None))
           else None))"

subsection \<open>The worker's world\<close>

text \<open>
  The phases of a service worker's life. \<open>Installed\<close> is the waiting state: installed,
  not yet activating.
\<close>

datatype phase = Installing | Installed | Activating | Activated | Redundant

record world =
  caches :: cache_storage
  phase :: phase
  skip_waiting_flag :: bool
  claimed :: bool
  console :: "string list"

text \<open>
  \<^verbatim>\<open>self.skipWaiting()\<close>: sets the worker's skip-waiting flag; a worker that is
  waiting starts to activate.
\<close>

definition skipWaiting :: "world \<Rightarrow> world" where
  "skipWaiting w =
     (if phase w = Installed
      then w\<lparr>skip_waiting_flag := True, phase := Activating\<rparr>
      else w\<lparr>skip_waiting_flag := True\<rparr>)"

text \<open>\<^verbatim>\<open>self.clients.claim()\<close>\<close>

definition clients_claim :: "world \<Rightarrow> world" where
  "clients_claim w = w\<lparr>claimed := True\<rparr>"

text \<open>\<^verbatim>\<open>console.log(...)\<close>\<close>

definition console_log :: "string \<Rightarrow> world \<Rightarrow> world" where
  "console_log msg w = w\<lparr>console := console w @ [msg]\<rparr>"

subsection \<open>Configuration\<close>

text \<open>
  The constants in which the two scripts differ: \<^verbatim>\<open>CACHE_NAME\<close>, \<^verbatim>\<open>ASSETS\<close>, and
  the icon and badge paths of the push listener.
\<close>

record config =
  cache_name :: string
  assets :: "string list"
  icon_path :: string
  badge_path :: string

definition sw_config :: config where
  "sw_config =
     \<lparr>cache_name = ''colegiospro-v1'',
      assets = [''/'', ''/demo'', ''/manifest.json'', ''/static/img/duilio-cta.jpg'',
                ''/static/img/duilio-chat.jpg'', ''/static/img/icon-192.png''],
      icon_path = ''/static/img/icon-192.png'',
      badge_path = ''/static/img/icon-192.png''\<rparr>"

definition landing_config :: config where
  "landing_config =
     \<lparr>cache_name = ''colegiospro-landing-v1'',
      assets = [''/'', ''/index.html'', ''/manifest.json'',
                ''https://fonts.googleapis.com/css2?family=Outfit:wght@300;400;500;600;700;800;900&family=DM+Sans:ital,wght@0,400;0,500;0,600;0,700;1,400&display=swap''],
      icon_path = ''/icon-192.png'',
      badge_path = ''/icon-192.png''\<rparr>"

subsection \<open>Install\<close>

text \<open>What the promise handed to \<^verbatim>\<open>event.waitUntil\<close> settles to.\<close>

datatype settled = Fulfilled | Rejected

text \<open>
  \<^verbatim>\<open>static/sw.js\<close>, lines 17 to 24. The listener calls \<^verbatim>\<open>skipWaiting\<close> before the
  promise chain runs: open the bucket, \<^verbatim>\<open>addAll(ASSETS)\<close>, and on rejection log
  \<^verbatim>\<open>'Cache addAll failed:'\<close>, so that the chain always fulfils. \<open>parse\<close> is the
  browser's URL parser at the worker's location.
\<close>

definition sw_install ::
  "config \<Rightarrow> (string \<Rightarrow> string option) \<Rightarrow> network \<Rightarrow> world \<Rightarrow> settled \<times> world" where
  "sw_install cfg parse net w =
     (let w0 = skipWaiting w;
          w1 = w0\<lparr>caches := caches_open (cache_name cfg) (caches w0)\<rparr>
      in case cache_addAll parse net (assets cfg) (bucket (cache_name cfg) (caches w1)) of
           Some c \<Rightarrow> (Fulfilled, w1\<lparr>caches := in_bucket (cache_name cfg) (\<lambda>_. c) (caches w1)\<rparr>)
         | None \<Rightarrow> (Fulfilled, console_log ''Cache addAll failed:'' w1))"

text \<open>
  The landing worker, lines 15 to 20: the same chain without the \<^verbatim>\<open>catch\<close>; a
  rejection of \<^verbatim>\<open>addAll\<close> is the rejection of the promise given to \<^verbatim>\<open>waitUntil\<close>.
\<close>

definition landing_install ::
  "config \<Rightarrow> (string \<Rightarrow> string option) \<Rightarrow> network \<Rightarrow> world \<Rightarrow> settled \<times> world" where
  "landing_install cfg parse net w =
     (let w0 = skipWaiting w;
          w1 = w0\<lparr>caches := caches_open (cache_name cfg) (caches w0)\<rparr>
      in case cache_addAll parse net (assets cfg) (bucket (cache_name cfg) (caches w1)) of
           Some c \<Rightarrow> (Fulfilled, w1\<lparr>caches := in_bucket (cache_name cfg) (\<lambda>_. c) (caches w1)\<rparr>)
         | None \<Rightarrow> (Rejected, w1))"

subsection \<open>Activate\<close>

text \<open>
  The same text in both scripts: \<^verbatim>\<open>clients.claim()\<close>, and the promise deletes every
  cache whose key is not \<^verbatim>\<open>CACHE_NAME\<close>.
\<close>

definition activate :: "config \<Rightarrow> world \<Rightarrow> settled \<times> world" where
  "activate cfg w =
     (let w0 = clients_claim w;
          keys = caches_keys (caches w0)
      in (Fulfilled,
          w0\<lparr>caches := fold caches_delete (filter (\<lambda>k. k \<noteq> cache_name cfg) keys) (caches w0)\<rparr>))"

subsection \<open>Fetch\<close>

text \<open>
  What the page sees of a request: the listener returned without \<^verbatim>\<open>respondWith\<close>
  (the browser handles the request itself), or the promise given to \<^verbatim>\<open>respondWith\<close>
  resolved to a response, or it did not (it resolved to \<^verbatim>\<open>undefined\<close>): a failed fetch.
\<close>

datatype fetch_outcome = NotIntercepted | Served response | Failed

text \<open>
  The promise chain given to \<^verbatim>\<open>respondWith\<close>, the same text in both scripts. For an
  ok response the bucket is opened and the clone is put; the chain of the put is not
  awaited, and a put that rejects leaves the bucket opened and nothing stored.
\<close>

definition network_first :: "config \<Rightarrow> network \<Rightarrow> request \<Rightarrow> world \<Rightarrow> fetch_outcome \<times> world" where
  "network_first cfg net req w =
     (case net req of
        Response r \<Rightarrow>
          (if ok r
           then (let cs = caches_open (cache_name cfg) (caches w)
                 in case cache_put (req_url req) r (bucket (cache_name cfg) cs) of
                      Some c \<Rightarrow> (Served r, w\<lparr>caches := in_bucket (cache_name cfg) (\<lambda>_. c) cs\<rparr>)
                    | None \<Rightarrow> (Served r, w\<lparr>caches := cs\<rparr>))
           else (Served r, w))
      | NetworkError \<Rightarrow>
          (case caches_match (req_url req) (caches w) of
             Some r \<Rightarrow> (Served r, w)
           | None \<Rightarrow> (Failed, w)))"

text \<open>\<^verbatim>\<open>static/sw.js\<close>, lines 37 to 53: requests whose URL contains \<^verbatim>\<open>/ws/\<close> are skipped.\<close>

definition sw_fetch :: "config \<Rightarrow> network \<Rightarrow> request \<Rightarrow> world \<Rightarrow> fetch_outcome \<times> world" where
  "sw_fetch cfg net req w =
     (if req_method req \<noteq> ''GET'' then (NotIntercepted, w)
      else if js_includes (req_url req) ''/ws/'' then (NotIntercepted, w)
      else network_first cfg net req w)"

text \<open>The landing worker, lines 33 to 49.\<close>

definition landing_fetch :: "config \<Rightarrow> network \<Rightarrow> request \<Rightarrow> world \<Rightarrow> fetch_outcome \<times> world" where
  "landing_fetch cfg net req w =
     (if req_method req \<noteq> ''GET'' then (NotIntercepted, w)
      else network_first cfg net req w)"

subsection \<open>Push\<close>

text \<open>
  \<^verbatim>\<open>event.data\<close> of a push event, when it is not \<^verbatim>\<open>null\<close>: its text, and what
  \<^verbatim>\<open>json()\<close> returns (\<open>None\<close> when it throws, the text not being JSON).
\<close>

record push_message_data =
  pm_text :: string
  pm_json :: "jsval option"

text \<open>The listener's local object \<^verbatim>\<open>data\<close>; an absent property is \<open>Undefined\<close>.\<close>

record notification_data =
  n_title :: jsval
  n_body :: jsval
  n_icon :: jsval
  n_badge :: jsval
  n_vibrate :: jsval
  n_data :: jsval
  n_actions :: jsval

text \<open>
  The options dictionary \<^verbatim>\<open>showNotification\<close> reads from its second argument: a
  member that is absent or \<^verbatim>\<open>undefined\<close> is \<open>Undefined\<close>. The dictionary has no title.
\<close>

record notification_options =
  o_body :: jsval
  o_icon :: jsval
  o_badge :: jsval
  o_vibrate :: jsval
  o_data :: jsval
  o_actions :: jsval

definition default_data :: "config \<Rightarrow> notification_data" where
  "default_data cfg =
     \<lparr>n_title = Str ''ColegiosPro'', n_body = Str ''Tiene un nuevo mensaje'',
      n_icon = Str (icon_path cfg), n_badge = Undefined, n_vibrate = Undefined,
      n_data = Undefined, n_actions = Undefined\<rparr>"

text \<open>
  The object literal built from the parsed payload; \<open>None\<close> when reading a property of
  the payload throws.
\<close>

definition from_payload :: "config \<Rightarrow> notification_data \<Rightarrow> jsval \<Rightarrow> notification_data option" where
  "from_payload cfg dflt payload =
     (case get_prop payload ''title'' of None \<Rightarrow> None | Some t \<Rightarrow>
     (case get_prop payload ''body'' of None \<Rightarrow> None | Some b \<Rightarrow>
     (case get_prop payload ''icon'' of None \<Rightarrow> None | Some i \<Rightarrow>
     (case get_prop payload ''url'' of None \<Rightarrow> None | Some u \<Rightarrow>
     (case get_prop payload ''chatMessage'' of None \<Rightarrow> None | Some m \<Rightarrow>
        Some \<lparr>n_title = js_or t (n_title dflt),
              n_body = js_or b (n_body dflt),
              n_icon = js_or i (n_icon dflt),
              n_badge = Str (badge_path cfg),
              n_vibrate = Arr [Num 200, Num 100, Num 200],
              n_data = Obj [(''url'', js_or u (Str ''/'')), (''chatMessage'', js_or m Null)],
              n_actions = Arr [Obj [(''action'', Str ''open''), (''title'', Str ''Abrir'')],
                               Obj [(''action'', Str ''reply''), (''title'', Str ''Responder'')]]\<rparr>)))))"

text \<open>
  The \<^verbatim>\<open>try\<close> and \<^verbatim>\<open>catch\<close> of the push listener, the same in both scripts: in the
  \<^verbatim>\<open>catch\<close>, \<^verbatim>\<open>data\<close> is still the default object and its body becomes the text.
\<close>

definition push_data :: "config \<Rightarrow> push_message_data option \<Rightarrow> notification_data" where
  "push_data cfg ev =
     (let dflt = default_data cfg;
          caught = dflt\<lparr>n_body := (case ev of Some d \<Rightarrow> Str (pm_text d) | None \<Rightarrow> n_body dflt)\<rparr>
      in case ev of
           None \<Rightarrow> dflt
         | Some d \<Rightarrow>
             (case pm_json d of
                None \<Rightarrow> caught
              | Some payload \<Rightarrow>
                  (case from_payload cfg dflt payload of None \<Rightarrow> caught | Some dat \<Rightarrow> dat)))"

text \<open>
  \<^verbatim>\<open>static/sw.js\<close>, line 77: \<^verbatim>\<open>showNotification(data.title, data)\<close>. The result is the
  one call of \<^verbatim>\<open>showNotification\<close> the listener makes: its title and its options.
\<close>

definition sw_push :: "config \<Rightarrow> push_message_data option \<Rightarrow> jsval \<times> notification_options" where
  "sw_push cfg ev =
     (let dat = push_data cfg ev
      in (n_title dat,
          \<lparr>o_body = n_body dat, o_icon = n_icon dat, o_badge = n_badge dat,
           o_vibrate = n_vibrate dat, o_data = n_data dat, o_actions = n_actions dat\<rparr>))"

text \<open>The landing worker, lines 78 to 87: the badge falls back to the icon.\<close>

definition landing_push :: "config \<Rightarrow> push_message_data option \<Rightarrow> jsval \<times> notification_options" where
  "landing_push cfg ev =
     (let dat = push_data cfg ev
      in (n_title dat,
          \<lparr>o_body = n_body dat, o_icon = n_icon dat, o_badge = js_or (n_badge dat) (n_icon dat),
           o_vibrate = n_vibrate dat, o_data = n_data dat, o_actions = n_actions dat\<rparr>))"

text \<open>
  \<^verbatim>\<open>notification.data\<close> of the notification shown with these options: the data
  given, \<^verbatim>\<open>null\<close> when none was.
\<close>

definition shown_data :: "notification_options \<Rightarrow> jsval" where
  "shown_data opts = (if o_data opts = Undefined then Null else o_data opts)"

subsection \<open>Notification click\<close>

record client =
  client_id :: nat
  client_url :: string

text \<open>What the listener does, in order. \<open>Threw\<close> ends a run that threw.\<close>

datatype action =
    CloseNotification
  | Focus nat
  | PostMessage nat jsval
  | OpenWindow jsval
  | Threw

text \<open>
  The loop over \<^verbatim>\<open>windowClients\<close>: the first client whose URL contains the origin is
  focused, gets the message when \<^verbatim>\<open>data?.chatMessage\<close> is truthy, and ends the loop;
  when the loop finds none, \<^verbatim>\<open>openWindow(url)\<close>.
\<close>

fun visit :: "string \<Rightarrow> jsval \<Rightarrow> jsval \<Rightarrow> client list \<Rightarrow> action list" where
  "visit origin ndata url [] = [OpenWindow url]"
| "visit origin ndata url (c # cs) =
     (if js_includes (client_url c) origin
      then Focus (client_id c) #
           (if truthy (opt_chain ndata ''chatMessage'')
            then (case get_prop ndata ''chatMessage'' of
                    Some m \<Rightarrow> [PostMessage (client_id c)
                                 (Obj [(''type'', Str ''OPEN_CHAT''), (''message'', m)])]
                  | None \<Rightarrow> [Threw])
            else [])
      else visit origin ndata url cs)"

text \<open>
  The listener, the same text in both scripts; \<open>origin\<close> is \<^verbatim>\<open>self.location.origin\<close>,
  \<open>ndata\<close> is \<^verbatim>\<open>event.notification.data\<close>, \<open>cs\<close> is what \<^verbatim>\<open>clients.matchAll\<close> gives.
\<close>

definition notificationclick :: "string \<Rightarrow> jsval \<Rightarrow> client list \<Rightarrow> action list" where
  "notificationclick origin ndata cs =
     CloseNotification # visit origin ndata (js_or (opt_chain ndata ''url'') (Str ''/'')) cs"

subsection \<open>Message\<close>

text \<open>
  The landing worker, lines 119 to 123:
  \<^verbatim>\<open>if (event.data && event.data.type === 'SKIP_WAITING') self.skipWaiting()\<close>.
\<close>

definition landing_message :: "jsval \<Rightarrow> world \<Rightarrow> world" where
  "landing_message d w =
     (if truthy d
      then (case get_prop d ''type'' of
              Some t \<Rightarrow> (if t = Str ''SKIP_WAITING'' then skipWaiting w else w)
            | None \<Rightarrow> w)
      else w)"

text \<open>
  \<^verbatim>\<open>static/sw.js\<close> registers no listener for \<^verbatim>\<open>message\<close>: the event runs no code of
  the worker.
\<close>

definition sw_message :: "jsval \<Rightarrow> world \<Rightarrow> world" where
  "sw_message d w = w"

subsection \<open>Events in sequence\<close>

datatype variant = AppWorker | LandingWorker

datatype event =
    EvInstall network
  | EvActivate
  | EvFetch network request
  | EvPush "push_message_data option"
  | EvNotificationClick jsval "client list"
  | EvMessage jsval

text \<open>What a listener hands to the browser; \<open>Nothing\<close> for the message event.\<close>

datatype handed =
    InstallSettled settled
  | ActivateSettled settled
  | Fetched fetch_outcome
  | ShowNotification jsval notification_options
  | Clicked "action list"
  | Nothing

text \<open>
  The worker of a variant handling one event: what it hands to the browser, and the
  world after. \<open>AppWorker\<close> is \<^verbatim>\<open>static/sw.js\<close>, \<open>LandingWorker\<close> the second script;
  \<open>origin\<close> is \<^verbatim>\<open>self.location.origin\<close> and \<open>parse\<close> the URL parser at the worker's
  location.
  Push and notification click act on the browser only and leave the world as it is.
\<close>

fun handle ::
  "variant \<Rightarrow> config \<Rightarrow> string \<Rightarrow> (string \<Rightarrow> string option) \<Rightarrow> event \<Rightarrow> world \<Rightarrow> handed \<times> world"
  where
  "handle AppWorker cfg origin parse (EvInstall net) w =
     (case sw_install cfg parse net w of (s, w') \<Rightarrow> (InstallSettled s, w'))"
| "handle LandingWorker cfg origin parse (EvInstall net) w =
     (case landing_install cfg parse net w of (s, w') \<Rightarrow> (InstallSettled s, w'))"
| "handle v cfg origin parse EvActivate w =
     (case activate cfg w of (s, w') \<Rightarrow> (ActivateSettled s, w'))"
| "handle AppWorker cfg origin parse (EvFetch net req) w =
     (case sw_fetch cfg net req w of (r, w') \<Rightarrow> (Fetched r, w'))"
| "handle LandingWorker cfg origin parse (EvFetch net req) w =
     (case landing_fetch cfg net req w of (r, w') \<Rightarrow> (Fetched r, w'))"
| "handle AppWorker cfg origin parse (EvPush ev) w =
     (case sw_push cfg ev of (t, opts) \<Rightarrow> (ShowNotification t opts, w))"
| "handle LandingWorker cfg origin parse (EvPush ev) w =
     (case landing_push cfg ev of (t, opts) \<Rightarrow> (ShowNotification t opts, w))"
| "handle v cfg origin parse (EvNotificationClick ndata cs) w =
     (Clicked (notificationclick origin ndata cs), w)"
| "handle AppWorker cfg origin parse (EvMessage d) w = (Nothing, sw_message d w)"
| "handle LandingWorker cfg origin parse (EvMessage d) w = (Nothing, landing_message d w)"

fun run ::
  "variant \<Rightarrow> config \<Rightarrow> string \<Rightarrow> (string \<Rightarrow> string option) \<Rightarrow> event list \<Rightarrow> world \<Rightarrow> world"
  where
  "run v cfg origin parse [] w = w"
| "run v cfg origin parse (e # es) w =
     run v cfg origin parse es (snd (handle v cfg origin parse e w))"

subsection \<open>The words of the specification\<close>

text \<open>
  A payload field is absent or falsy: the object has no such key, or its value is one of
  \<^verbatim>\<open>undefined\<close>, \<^verbatim>\<open>null\<close>, \<^verbatim>\<open>false\<close>, \<^verbatim>\<open>0\<close>, the empty string.
\<close>

definition absent_or_falsy :: "(string \<times> jsval) list \<Rightarrow> string \<Rightarrow> bool" where
  "absent_or_falsy kvs k =
     (case map_of kvs k of
        None \<Rightarrow> True
      | Some v \<Rightarrow> v = Undefined \<or> v = Null \<or> v = Bool False \<or> v = Num 0 \<or> v = Str [])"

text \<open>The field of the payload, or the default when the field is absent or falsy.\<close>

definition field_or :: "(string \<times> jsval) list \<Rightarrow> string \<Rightarrow> jsval \<Rightarrow> jsval" where
  "field_or kvs k dflt =
     (if absent_or_falsy kvs k then dflt
      else (case map_of kvs k of Some v \<Rightarrow> v | None \<Rightarrow> dflt))"

text \<open>A client's URL falls under the origin, as the click listener tests it.\<close>

definition under_origin :: "string \<Rightarrow> client \<Rightarrow> bool" where
  "under_origin origin c = js_includes (client_url c) origin"

text \<open>
  The data envelope of a clicked notification, read as the specification does: its
  chatMessage, \<^verbatim>\<open>null\<close> when there is none; its url, \<^verbatim>\<open>/\<close> when there is none.
\<close>

definition envelope_chat_message :: "jsval \<Rightarrow> jsval" where
  "envelope_chat_message ndata =
     (case ndata of
        Obj kvs \<Rightarrow> (case map_of kvs ''chatMessage'' of Some m \<Rightarrow> m | None \<Rightarrow> Null)
      | _ \<Rightarrow> Null)"

definition envelope_url :: "jsval \<Rightarrow> jsval" where
  "envelope_url ndata =
     (case ndata of
        Obj kvs \<Rightarrow> (case map_of kvs ''url'' of Some u \<Rightarrow> u | None \<Rightarrow> Str ''/'')
      | _ \<Rightarrow> Str ''/'')"

text \<open>The message data that makes the landing worker skip waiting.\<close>

definition is_skip_waiting :: "jsval \<Rightarrow> bool" where
  "is_skip_waiting d =
     (case d of Obj kvs \<Rightarrow> map_of kvs ''type'' = Some (Str ''SKIP_WAITING'') | _ \<Rightarrow> False)"

text \<open>
  A push event whose payload the listener reads to the end: there is data, it parses, and
  the parsed value is not \<^verbatim>\<open>null\<close>.
\<close>

definition payload_read :: "push_message_data option \<Rightarrow> bool" where
  "payload_read ev =
     (case ev of
        None \<Rightarrow> False
      | Some d \<Rightarrow> (case pm_json d of None \<Rightarrow> False | Some p \<Rightarrow> p \<noteq> Null \<and> p \<noteq> Undefined))"

text \<open>
  \<^verbatim>\<open>addAll\<close> of a manifest goes through: every string parses to an http(s) URL, no two
  of the URLs are the same but for their fragments, and every URL is fetched with an ok
  response other than 206.
\<close>

definition addAll_accepts ::
  "(string \<Rightarrow> string option) \<Rightarrow> network \<Rightarrow> string list \<Rightarrow> bool" where
  "addAll_accepts parse net ss =
     (case parse_all parse ss of
        None \<Rightarrow> False
      | Some us \<Rightarrow>
          list_all http_url us \<and> distinct (map without_fragment us) \<and>
          list_all (\<lambda>u. fetched net u \<noteq> None) us)"

text \<open>
  The events on which the two variants, given the same configuration, hand the same to
  the browser and leave the same world.
\<close>

fun common_ground :: "config \<Rightarrow> (string \<Rightarrow> string option) \<Rightarrow> event \<Rightarrow> bool" where
  "common_ground cfg parse (EvInstall net) = addAll_accepts parse net (assets cfg)"
| "common_ground cfg parse EvActivate = True"
| "common_ground cfg parse (EvFetch net req) =
     (\<not> (req_method req = ''GET'' \<and> js_includes (req_url req) ''/ws/''))"
| "common_ground cfg parse (EvPush ev) = payload_read ev"
| "common_ground cfg parse (EvNotificationClick ndata cs) = True"
| "common_ground cfg parse (EvMessage d) = (\<not> is_skip_waiting d)"

text \<open>
  What the worker keeps of Cache Storage from \<open>cs\<close> to \<open>cs'\<close>, for its cache name
  \<open>nm\<close>: the cache of that name is still there if it was, every entry it held is still
  held (possibly with a newer response), and every cache of another name is as it was, or
  deleted.
\<close>

definition kept :: "string \<Rightarrow> cache_storage \<Rightarrow> cache_storage \<Rightarrow> bool" where
  "kept nm cs cs' =
     ((nm \<in> set (caches_keys cs) \<longrightarrow> nm \<in> set (caches_keys cs')) \<and>
      (\<forall>u. cache_match u (bucket nm cs) \<noteq> None \<longrightarrow> cache_match u (bucket nm cs') \<noteq> None) \<and>
      (\<forall>n. n \<noteq> nm \<longrightarrow> map_of cs' n = map_of cs n \<or> map_of cs' n = None))"

subsection \<open>Sample worlds and events\<close>

definition r200 :: response where
  "r200 = \<lparr>resp_status = 200, resp_body = ''fresh''\<rparr>"


definition r206 :: response where
  "r206 = \<lparr>resp_status = 206, resp_body = ''part''\<rparr>"

definition r_old :: response where
  "r_old = \<lparr>resp_status = 200, resp_body = ''stale''\<rparr>"

definition w_fresh :: world where
  "w_fresh = \<lparr>caches = [], phase = Installing, skip_waiting_flag = False, claimed = False,
              console = []\<rparr>"

definition w_old :: world where
  "w_old = \<lparr>caches = [(''colegiospro-v0'', [(''https://colegiospro.example/'', r_old)]),
                      (''colegiospro-v1'', [(''https://colegiospro.example/demo'', r_old)])],
            phase = Activating, skip_waiting_flag = True, claimed = False, console = []\<rparr>"

definition w_waiting :: world where
  "w_waiting = \<lparr>caches = [], phase = Installed, skip_waiting_flag = False, claimed = False,
                console = []\<rparr>"

definition net_up :: network where
  "net_up req = Response r200"

definition net_down :: network where
  "net_down req = NetworkError"


definition net_206 :: network where
  "net_206 req = Response r206"

definition net_demo_down :: network where
  "net_demo_down req =
     (if req_url req = ''https://colegiospro.example/demo'' then NetworkError
      else Response r200)"

definition get_demo :: request where
  "get_demo = \<lparr>req_method = ''GET'', req_url = ''https://colegiospro.example/demo''\<rparr>"

definition get_demo_x :: request where
  "get_demo_x = \<lparr>req_method = ''GET'', req_url = ''https://colegiospro.example/demo#x''\<rparr>"

definition get_other :: request where
  "get_other = \<lparr>req_method = ''GET'', req_url = ''https://colegiospro.example/other''\<rparr>"



definition the_origin :: string where
  "the_origin = ''https://colegiospro.example''"

text \<open>
  The URL parser at the location \<^verbatim>\<open>https://colegiospro.example\<close>, as far as the two
  manifests need it: an http(s) URL is itself, a path that starts with one slash is put
  after the origin.
\<close>

definition parse_at_origin :: "string \<Rightarrow> string option" where
  "parse_at_origin s =
     (if http_url s then Some s
      else if take 1 s = ''/'' \<and> take 2 s \<noteq> ''//'' then Some (the_origin @ s)
      else None)"

definition tab :: client where
  "tab = \<lparr>client_id = 7, client_url = ''https://colegiospro.example/demo''\<rparr>"

definition foreign_tab :: client where
  "foreign_tab = \<lparr>client_id = 3, client_url = ''about:blank''\<rparr>"

definition payload_TB :: "(string \<times> jsval) list" where
  "payload_TB = [(''title'', Str ''T''), (''body'', Str ''B''), (''url'', Str ''/chat'')]"

definition push_TB :: push_message_data where
  \<open>push_TB = \<lparr>pm_text = ''{"title":"T","body":"B","url":"/chat"}'', pm_json = Some (Obj payload_TB)\<rparr>\<close>

definition push_empty_title :: push_message_data where
  \<open>push_empty_title = \<lparr>pm_text = ''{"title":"","body":"B"}'',
                        pm_json = Some (Obj [(''title'', Str []), (''body'', Str ''B'')])\<rparr>\<close>

definition push_chat :: push_message_data where
  \<open>push_chat = \<lparr>pm_text = ''{"title":"T","url":"/chat","chatMessage":"hola"}'',
                 pm_json = Some (Obj [(''title'', Str ''T''), (''url'', Str ''/chat''),
                                      (''chatMessage'', Str ''hola'')])\<rparr>\<close>

definition push_hello :: push_message_data where
  "push_hello = \<lparr>pm_text = ''hello'', pm_json = None\<rparr>"

definition skip_msg :: jsval where
  "skip_msg = Obj [(''type'', Str ''SKIP_WAITING'')]"

definition sample_events :: "event list" where
  "sample_events =
     [EvInstall net_demo_down, EvActivate, EvFetch net_up get_other, EvPush None,
      EvMessage skip_msg, EvFetch net_206 get_demo, EvFetch net_up get_demo_x,
      EvFetch net_down get_demo]"

section \<open>Properties\<close>

subsection \<open>Lemmas on the listeners\<close>

lemma fold_caches_delete:
  "fold caches_delete ks cs = filter (\<lambda>nc. fst nc \<notin> set ks) cs"
  by (induction ks arbitrary: cs) (auto simp: caches_delete_def intro: filter_cong)

lemma activate_caches:
  "caches (snd (activate cfg w)) = filter (\<lambda>nc. fst nc = cache_name cfg) (caches w)"
  by (auto simp: activate_def Let_def clients_claim_def caches_keys_def fold_caches_delete
      intro: filter_cong)

lemma push_data_unparsable:
  "pm_json d = None \<Longrightarrow> push_data cfg (Some d) = (default_data cfg)\<lparr>n_body := Str (pm_text d)\<rparr>"
  by (simp add: push_data_def Let_def)

lemma landing_message_skip:
  "is_skip_waiting d \<Longrightarrow> landing_message d w = skipWaiting w"
  by (cases d) (auto simp: is_skip_waiting_def landing_message_def)

lemma landing_message_other:
  "\<not> is_skip_waiting d \<Longrightarrow> landing_message d w = w"
  by (cases d) (auto simp: is_skip_waiting_def landing_message_def split: option.splits)

lemma truthy_iff:
  "truthy v \<longleftrightarrow> \<not> (v = Undefined \<or> v = Null \<or> v = Bool False \<or> v = Num 0 \<or> v = Str [])"
  by (cases v) auto

lemma js_or_field:
  "get_prop (Obj kvs) k = Some v \<Longrightarrow> js_or v dflt = field_or kvs k dflt"
  by (auto simp: js_or_def field_or_def absent_or_falsy_def truthy_iff split: option.splits)

lemma get_prop_Obj_total: "\<exists>v. get_prop (Obj kvs) k = Some v"
  by (simp split: option.splits)

lemma from_payload_Obj:
  "from_payload cfg dflt (Obj kvs) =
     Some \<lparr>n_title = field_or kvs ''title'' (n_title dflt),
           n_body = field_or kvs ''body'' (n_body dflt),
           n_icon = field_or kvs ''icon'' (n_icon dflt),
           n_badge = Str (badge_path cfg),
           n_vibrate = Arr [Num 200, Num 100, Num 200],
           n_data = Obj [(''url'', field_or kvs ''url'' (Str ''/'')),
                         (''chatMessage'', field_or kvs ''chatMessage'' Null)],
           n_actions = Arr [Obj [(''action'', Str ''open''), (''title'', Str ''Abrir'')],
                            Obj [(''action'', Str ''reply''), (''title'', Str ''Responder'')]]\<rparr>"
proof -
  obtain t b i u m where g: "get_prop (Obj kvs) ''title'' = Some t"
    "get_prop (Obj kvs) ''body'' = Some b" "get_prop (Obj kvs) ''icon'' = Some i"
    "get_prop (Obj kvs) ''url'' = Some u" "get_prop (Obj kvs) ''chatMessage'' = Some m"
    using get_prop_Obj_total by metis
  show ?thesis
    unfolding from_payload_def g option.case
    by (simp only: js_or_field [OF g(1)] js_or_field [OF g(2)] js_or_field [OF g(3)]
        js_or_field [OF g(4)] js_or_field [OF g(5)])
qed

lemma opt_chain_truthy:
  "truthy (opt_chain v k) \<Longrightarrow> get_prop v k = Some (opt_chain v k)"
  by (auto simp: opt_chain_def split: option.splits)

lemma visit_first:
  "visit origin ndata url cs =
     (case find (under_origin origin) cs of
        Some c \<Rightarrow>
          Focus (client_id c) #
          (if truthy (opt_chain ndata ''chatMessage'')
           then [PostMessage (client_id c)
                   (Obj [(''type'', Str ''OPEN_CHAT''), (''message'', opt_chain ndata ''chatMessage'')])]
           else [])
      | None \<Rightarrow> [OpenWindow url])"
  by (induction cs) (auto simp: under_origin_def opt_chain_truthy)

lemma push_data_fallback:
  assumes "\<not> payload_read ev"
  shows "push_data cfg ev =
           (default_data cfg)
             \<lparr>n_body := (case ev of None \<Rightarrow> Str ''Tiene un nuevo mensaje''
                         | Some d \<Rightarrow> Str (pm_text d))\<rparr>"
  using assms
  by (auto simp: payload_read_def push_data_def Let_def from_payload_def default_data_def
      split: option.splits)

lemma click_no_data:
  "notificationclick origin Null cs =
     CloseNotification #
     (case find (under_origin origin) cs of
        Some c \<Rightarrow> [Focus (client_id c)]
      | None \<Rightarrow> [OpenWindow (Str ''/'')])"
  by (simp add: notificationclick_def visit_first js_or_def opt_chain_def split: option.splits)

lemma map_of_in_bucket:
  "map_of (in_bucket n f cs) m = (if m = n then map_option f (map_of cs n) else map_of cs m)"
  by (induction cs) (auto simp: in_bucket_def)

lemma keys_in_bucket: "map fst (in_bucket n f cs) = map fst cs"
  by (induction cs) (auto simp: in_bucket_def)

lemma fst_set_in_bucket: "fst ` set (in_bucket n f cs) = fst ` set cs"
  using keys_in_bucket [of n f cs] by (metis set_map)

lemma map_of_caches_open:
  "map_of (caches_open n cs) m =
     (if m = n then (case map_of cs n of Some c \<Rightarrow> Some c | None \<Rightarrow> Some []) else map_of cs m)"
proof (cases "n \<in> set (map fst cs)")
  case True
  then obtain c where "map_of cs n = Some c"
    by (metis map_of_eq_None_iff not_Some_eq set_map)
  with True show ?thesis by (simp add: caches_open_def)
next
  case False
  then have "map_of cs n = None" by (simp add: map_of_eq_None_iff)
  with False show ?thesis by (simp add: caches_open_def map_add_def split: option.splits)
qed

lemma bucket_caches_open: "bucket m (caches_open n cs) = bucket m cs"
  by (simp add: bucket_def map_of_caches_open split: option.splits)

lemma bucket_in_bucket_open:
  "bucket n (in_bucket n f (caches_open n cs)) = f (bucket n cs)"
  by (simp add: bucket_def map_of_in_bucket map_of_caches_open split: option.splits)



lemma caches_skipWaiting: "caches (skipWaiting w) = caches w"
  by (simp add: skipWaiting_def)


lemma keys_caches_open: "n \<in> set (caches_keys (caches_open n cs))"
  by (auto simp: caches_keys_def caches_open_def)



lemma same_resource_sym: "same_resource u v = same_resource v u"
  by (auto simp: same_resource_def)

lemma find_filter_kept:
  assumes "\<And>x. P x \<Longrightarrow> Q x"
  shows "find P (filter Q xs) = find P xs"
  using assms by (induction xs) auto

lemma find_filter_gone:
  assumes "\<And>x. P x \<Longrightarrow> \<not> Q x"
  shows "find P (filter Q xs) = None"
  using assms by (induction xs) auto

lemma find_app:
  "find P (xs @ ys) = (case find P xs of None \<Rightarrow> find P ys | Some x \<Rightarrow> Some x)"
  by (induction xs) auto

lemma cache_match_store:
  "cache_match u (store v r c) = (if same_resource v u then Some r else cache_match u c)"
proof (cases "same_resource v u")
  case True
  have "find (\<lambda>kv. same_resource (fst kv) u) (filter (\<lambda>kv. \<not> same_resource (fst kv) v) c) = None"
    by (rule find_filter_gone) (use True in \<open>simp add: same_resource_def\<close>)
  with True show ?thesis by (simp add: cache_match_def store_def find_app)
next
  case False
  have "find (\<lambda>kv. same_resource (fst kv) u) (filter (\<lambda>kv. \<not> same_resource (fst kv) v) c) =
        find (\<lambda>kv. same_resource (fst kv) u) c"
    by (rule find_filter_kept) (use False in \<open>auto simp: same_resource_def\<close>)
  with False show ?thesis
    by (simp add: cache_match_def store_def find_app split: option.splits)
qed

lemma cache_match_same_resource:
  "same_resource u v \<Longrightarrow> cache_match u c = cache_match v c"
  by (simp add: cache_match_def same_resource_def)











lemma fetch_all_None_iff:
  "fetch_all net us = None \<longleftrightarrow> (\<exists>u\<in>set us. fetched net u = None)"
  by (induction us) (auto split: option.splits)

lemma fetch_all_Some:
  "fetch_all net us = Some urs \<Longrightarrow> urs = map (\<lambda>u. (u, the (fetched net u))) us"
  by (induction us arbitrary: urs) (auto split: option.splits)

lemma put_all_keeps: "cache_match u c \<noteq> None \<Longrightarrow> cache_match u (put_all urs c) \<noteq> None"
  by (induction urs arbitrary: c) (auto simp: cache_match_store)



lemma fetch_all_fetched:
  "fetch_all net us = Some urs \<Longrightarrow> u \<in> set us \<Longrightarrow> \<exists>r. fetched net u = Some r"
  using fetch_all_None_iff [of net us] by auto

lemma addAll_None_iff:
  "cache_addAll parse net ss c = None \<longleftrightarrow> \<not> addAll_accepts parse net ss"
proof (cases "parse_all parse ss")
  case None
  then show ?thesis by (simp add: cache_addAll_def addAll_accepts_def)
next
  case (Some us)
  have "list_all (\<lambda>u. fetched net u \<noteq> None) us \<longleftrightarrow> fetch_all net us \<noteq> None"
    by (simp add: fetch_all_None_iff list_all_iff)
  with Some show ?thesis
    by (auto simp: cache_addAll_def addAll_accepts_def split: option.splits)
qed

lemma addAll_Some:
  assumes "cache_addAll parse net ss c = Some c'"
  shows "\<exists>us. parse_all parse ss = Some us \<and> distinct (map without_fragment us) \<and>
           (\<forall>u\<in>set us. fetched net u \<noteq> None) \<and>
           c' = put_all (map (\<lambda>u. (u, the (fetched net u))) us) c"
proof -
  from assms obtain us urs where us: "parse_all parse ss = Some us" "fetch_all net us = Some urs"
    "distinct (map without_fragment us)" "c' = put_all urs c"
    by (auto simp: cache_addAll_def split: option.splits if_splits)
  have "\<forall>u\<in>set us. fetched net u \<noteq> None"
    using fetch_all_fetched [OF us(2)] by auto
  with us fetch_all_Some [OF us(2)] show ?thesis by simp
qed


lemma landing_install_rejects:
  "\<not> addAll_accepts parse net (assets cfg) \<Longrightarrow> fst (landing_install cfg parse net w) = Rejected"
  using addAll_None_iff [of parse net "assets cfg"]
  by (simp add: landing_install_def Let_def split: option.splits)







lemma kept_refl: "kept nm cs cs"
  by (simp add: kept_def)

lemma kept_trans:
  assumes "kept nm cs cs'" and "kept nm cs' cs''"
  shows "kept nm cs cs''"
proof -
  have "map_of cs'' n = map_of cs n \<or> map_of cs'' n = None" if "n \<noteq> nm" for n
    using assms that unfolding kept_def by metis
  moreover have "nm \<in> set (caches_keys cs) \<longrightarrow> nm \<in> set (caches_keys cs'')"
    using assms unfolding kept_def by blast
  moreover have "\<forall>u. cache_match u (bucket nm cs) \<noteq> None \<longrightarrow> cache_match u (bucket nm cs'') \<noteq> None"
    using assms unfolding kept_def by blast
  ultimately show ?thesis unfolding kept_def by blast
qed

lemma kept_open: "kept nm cs (caches_open nm cs)"
  by (simp add: kept_def bucket_caches_open map_of_caches_open keys_caches_open)

lemma kept_in_bucket:
  assumes "nm \<in> set (caches_keys cs)"
    and "\<And>u. cache_match u (bucket nm cs) \<noteq> None \<Longrightarrow> cache_match u (f (bucket nm cs)) \<noteq> None"
  shows "kept nm cs (in_bucket nm f cs)"
proof -
  from assms(1) obtain c where c: "map_of cs nm = Some c"
    by (metis caches_keys_def map_of_eq_None_iff not_Some_eq set_map)
  have "bucket nm (in_bucket nm f cs) = f (bucket nm cs)"
    by (simp add: bucket_def map_of_in_bucket c)
  with assms show ?thesis
    by (simp add: kept_def caches_keys_def fst_set_in_bucket map_of_in_bucket)
qed

lemma map_of_filter_name:
  "map_of (filter (\<lambda>nc. fst nc = nm) cs) n = (if n = nm then map_of cs nm else None)"
  by (induction cs) auto

lemma kept_filter: "kept nm cs (filter (\<lambda>nc. fst nc = nm) cs)"
  by (auto simp: kept_def caches_keys_def bucket_def map_of_filter_name)


lemma store_keeps: "cache_match u c \<noteq> None \<Longrightarrow> cache_match u (store v r c) \<noteq> None"
  by (simp add: cache_match_store)

lemma kept_addAll:
  assumes "cache_addAll parse net ss (bucket nm (caches_open nm cs)) = Some c'"
  shows "kept nm cs (in_bucket nm (\<lambda>_. c') (caches_open nm cs))"
proof -
  from addAll_Some [OF assms] obtain urs where
    c': "c' = put_all urs (bucket nm (caches_open nm cs))" by blast
  have "kept nm (caches_open nm cs) (in_bucket nm (\<lambda>_. c') (caches_open nm cs))"
    by (rule kept_in_bucket) (simp_all add: keys_caches_open c' put_all_keeps)
  from kept_trans [OF kept_open this] show ?thesis .
qed

lemma kept_install_sw:
  "kept (cache_name cfg) (caches w) (caches (snd (sw_install cfg parse net w)))"
proof (cases "cache_addAll parse net (assets cfg)
    (bucket (cache_name cfg) (caches_open (cache_name cfg) (caches w)))")
  case None
  then show ?thesis
    by (simp add: sw_install_def Let_def caches_skipWaiting console_log_def kept_open)
next
  case (Some c')
  from kept_addAll [OF Some] Some show ?thesis
    by (simp add: sw_install_def Let_def caches_skipWaiting)
qed

lemma kept_install_landing:
  "kept (cache_name cfg) (caches w) (caches (snd (landing_install cfg parse net w)))"
proof (cases "cache_addAll parse net (assets cfg)
    (bucket (cache_name cfg) (caches_open (cache_name cfg) (caches w)))")
  case None
  then show ?thesis
    by (simp add: landing_install_def Let_def caches_skipWaiting kept_open)
next
  case (Some c')
  from kept_addAll [OF Some] Some show ?thesis
    by (simp add: landing_install_def Let_def caches_skipWaiting)
qed

lemma kept_activate: "kept (cache_name cfg) (caches w) (caches (snd (activate cfg w)))"
  by (simp add: activate_caches kept_filter)


lemma kept_network_first:
  "kept (cache_name cfg) (caches w) (caches (snd (network_first cfg net req w)))"
proof -
  have "kept (cache_name cfg) (caches_open (cache_name cfg) (caches w))
          (in_bucket (cache_name cfg)
             (\<lambda>_. store (req_url req) r (bucket (cache_name cfg) (caches_open (cache_name cfg) (caches w))))
             (caches_open (cache_name cfg) (caches w)))" for r
    by (rule kept_in_bucket) (simp_all add: keys_caches_open store_keeps)
  from kept_trans [OF kept_open this] show ?thesis
    by (simp add: network_first_def Let_def cache_put_def kept_refl kept_open
        split: net_result.splits option.splits)
qed

lemma kept_message: "kept nm (caches w) (caches (landing_message d w))"
  by (cases "is_skip_waiting d")
    (simp_all add: landing_message_skip landing_message_other caches_skipWaiting kept_refl)

lemma kept_handle:
  "kept (cache_name cfg) (caches w) (caches (snd (handle v cfg origin parse e w)))"
proof (cases e)
  case (EvInstall net)
  then show ?thesis
    using kept_install_sw [of cfg w parse net] kept_install_landing [of cfg w parse net]
    by (cases v) (simp_all add: case_prod_beta)
next
  case EvActivate
  then show ?thesis using kept_activate [of cfg w] by (simp add: case_prod_beta)
next
  case (EvFetch net req)
  then show ?thesis
    using kept_network_first [of cfg w net req]
    by (cases v) (simp_all add: sw_fetch_def landing_fetch_def kept_refl case_prod_beta)
next
  case (EvPush ev)
  then show ?thesis by (cases v) (simp_all add: kept_refl case_prod_beta)
next
  case (EvNotificationClick ndata cs)
  then show ?thesis by (simp add: kept_refl)
next
  case (EvMessage d)
  then show ?thesis by (cases v) (simp_all add: kept_refl sw_message_def kept_message)
qed

lemma kept_run:
  "kept (cache_name cfg) (caches w) (caches (run v cfg origin parse es w))"
proof (induction es arbitrary: w)
  case Nil
  then show ?case by (simp add: kept_refl)
next
  case (Cons e es)
  show ?case
    using kept_trans [OF kept_handle [of cfg w v origin parse e]
        Cons.IH [of "snd (handle v cfg origin parse e w)"]]
    by simp
qed

lemma fetch_other_resources:
  assumes "\<not> same_resource u (req_url req)"
  shows "cache_match u (bucket (cache_name cfg) (caches (snd (network_first cfg net req w)))) =
         cache_match u (bucket (cache_name cfg) (caches w))"
  using assms
  by (auto simp: network_first_def Let_def cache_put_def bucket_in_bucket_open cache_match_store
      bucket_caches_open same_resource_sym split: net_result.splits option.splits)

text \<open>
  The click listener tests \<^verbatim>\<open>data?.chatMessage\<close> and \<^verbatim>\<open>data?.url\<close> for truthiness,
  whatever the notification's data.
\<close>

lemma notificationclick_truthy:
  "notificationclick origin ndata cs =
     CloseNotification #
     (case find (under_origin origin) cs of
        Some c \<Rightarrow>
          Focus (client_id c) #
          (if truthy (opt_chain ndata ''chatMessage'')
           then [PostMessage (client_id c)
                   (Obj [(''type'', Str ''OPEN_CHAT''), (''message'', opt_chain ndata ''chatMessage'')])]
           else [])
      | None \<Rightarrow>
          [OpenWindow (if truthy (opt_chain ndata ''url'') then opt_chain ndata ''url''
                       else Str ''/'')])"
  by (simp add: notificationclick_def visit_first js_or_def)

text \<open>
  The envelopes the push listeners build carry a truthy url, and a chatMessage that is
  \<^verbatim>\<open>null\<close> or truthy; a notification they show without an envelope has the data
  \<^verbatim>\<open>null\<close>.
\<close>

lemma push_envelope:
  assumes "from_payload cfg dflt p = Some dat"
  shows "\<exists>u m. n_data dat = Obj [(''url'', u), (''chatMessage'', m)] \<and> truthy u \<and>
           (m = Null \<or> truthy m)"
  using assms
  by (auto simp: from_payload_def js_or_def split: option.splits)

lemma pushed_data:
  assumes "f = sw_push \<or> f = landing_push"
  shows "shown_data (snd (f cfg ev)) = Null \<or>
         (\<exists>u m. shown_data (snd (f cfg ev)) = Obj [(''url'', u), (''chatMessage'', m)] \<and>
            truthy u \<and> (m = Null \<or> truthy m))"
proof -
  have o: "o_data (snd (f cfg ev)) = n_data (push_data cfg ev)"
    using assms by (auto simp: sw_push_def landing_push_def Let_def)
  have "n_data (push_data cfg ev) = Undefined \<or>
        (\<exists>u m. n_data (push_data cfg ev) = Obj [(''url'', u), (''chatMessage'', m)] \<and>
            truthy u \<and> (m = Null \<or> truthy m))"
    using push_envelope [of cfg "default_data cfg"]
    by (auto simp: push_data_def Let_def default_data_def split: option.splits)
  then show ?thesis
    unfolding shown_data_def o by auto
qed

subsection \<open>Fetch: network first, cache as fallback\<close>





subsection \<open>Install: all assets or none\<close>





text \<open>
  The landing worker has no \<^verbatim>\<open>catch\<close>: there, a rejection of \<^verbatim>\<open>addAll\<close> is the
  rejection of the promise given to \<^verbatim>\<open>waitUntil\<close>. And a network that answers 206 to
  every asset: \<^verbatim>\<open>addAll\<close> rejects, the application worker logs and stores nothing.
\<close>

lemma landing_install_rejects_demo_down:
  "fst (landing_install landing_config parse_at_origin net_down w_fresh) = Rejected"
  by code_simp

lemma install_206_rejected:
  "\<not> addAll_accepts parse_at_origin net_206 (assets sw_config) \<and>
   sw_install sw_config parse_at_origin net_206 w_fresh =
     (Fulfilled,
      w_fresh\<lparr>caches := [(''colegiospro-v1'', [])], skip_waiting_flag := True,
              console := [''Cache addAll failed:'']\<rparr>) \<and>
   fst (landing_install sw_config parse_at_origin net_206 w_fresh) = Rejected"
  by code_simp

subsection \<open>Activation\<close>

text \<open>
  C3. On activation the listener enumerates the cache names and deletes every cache whose
  name differs from \<^verbatim>\<open>CACHE_NAME\<close>: the promise fulfils, what remains of Cache
  Storage is exactly the caches named \<^verbatim>\<open>CACHE_NAME\<close> (with their content), so
  enumerating the names that differ from \<^verbatim>\<open>CACHE_NAME\<close> afterwards gives nothing;
  and the clients are claimed.
\<close>

theorem activate_only_current_remains:
  "fst (activate cfg w) = Fulfilled \<and>
   caches (snd (activate cfg w)) = filter (\<lambda>nc. fst nc = cache_name cfg) (caches w) \<and>
   filter (\<lambda>k. k \<noteq> cache_name cfg) (caches_keys (caches (snd (activate cfg w)))) = [] \<and>
   claimed (snd (activate cfg w))"
proof -
  have "filter (\<lambda>k. k \<noteq> cache_name cfg) (caches_keys (caches (snd (activate cfg w)))) = []"
    unfolding activate_caches caches_keys_def by (induction "caches w") auto
  moreover have "fst (activate cfg w) = Fulfilled" "claimed (snd (activate cfg w))"
    by (simp_all add: activate_def Let_def clients_claim_def)
  ultimately show ?thesis using activate_caches by blast
qed

text \<open>Version \<^verbatim>\<open>colegiospro-v1\<close> superseding \<^verbatim>\<open>colegiospro-v0\<close>.\<close>

theorem activate_only_current_remains_witness:
  "caches_keys (caches w_old) = [''colegiospro-v0'', ''colegiospro-v1''] \<and>
   caches_keys (caches (snd (activate sw_config w_old))) = [''colegiospro-v1''] \<and>
   filter (\<lambda>k. k \<noteq> ''colegiospro-v1'') (caches_keys (caches (snd (activate sw_config w_old)))) = []"
  using activate_only_current_remains [of sw_config w_old]
  by (simp add: sw_config_def w_old_def caches_keys_def)

subsection \<open>Push: a payload that parses\<close>

text \<open>
  A payload whose title is the empty string: the field is present, and the title shown is
  the default.
\<close>

theorem push_falsy_field_counterexample:
  "pm_json push_empty_title = Some (Obj [(''title'', Str []), (''body'', Str ''B'')]) \<and>
   map_of [(''title'', Str []), (''body'', Str ''B'')] ''title'' = Some (Str []) \<and>
   fst (sw_push sw_config (Some push_empty_title)) = Str ''ColegiosPro'' \<and>
   fst (landing_push landing_config (Some push_empty_title)) = Str ''ColegiosPro''"
  by (simp add: push_empty_title_def sw_push_def landing_push_def push_data_def Let_def
      from_payload_def default_data_def js_or_def)

text \<open>
  C4, amended. For every push event whose body parses as a JSON object, either worker
  shows a notification in which each of title, body, icon and the data envelope's url is
  the payload's field, or its hard-coded default exactly when the field is absent from the
  payload or falsy (\<^verbatim>\<open>null\<close>, \<^verbatim>\<open>false\<close>, \<^verbatim>\<open>0\<close>, the empty string). For the payload
  \<^verbatim>\<open>{"title":"T","body":"B","url":"/chat"}\<close> the title is \<^verbatim>\<open>T\<close>, the body \<^verbatim>\<open>B\<close> and
  the envelope's url \<^verbatim>\<open>/chat\<close>.
\<close>

theorem push_fields_default_when_falsy:
  assumes "pm_json d = Some (Obj kvs)" and "f = sw_push \<or> f = landing_push"
  shows "fst (f cfg (Some d)) = field_or kvs ''title'' (Str ''ColegiosPro'') \<and>
         o_body (snd (f cfg (Some d))) = field_or kvs ''body'' (Str ''Tiene un nuevo mensaje'') \<and>
         o_icon (snd (f cfg (Some d))) = field_or kvs ''icon'' (Str (icon_path cfg)) \<and>
         get_prop (o_data (snd (f cfg (Some d)))) ''url'' = Some (field_or kvs ''url'' (Str ''/''))"
proof -
  have "push_data cfg (Some d) =
      \<lparr>n_title = field_or kvs ''title'' (Str ''ColegiosPro''),
       n_body = field_or kvs ''body'' (Str ''Tiene un nuevo mensaje''),
       n_icon = field_or kvs ''icon'' (Str (icon_path cfg)),
       n_badge = Str (badge_path cfg),
       n_vibrate = Arr [Num 200, Num 100, Num 200],
       n_data = Obj [(''url'', field_or kvs ''url'' (Str ''/'')),
                     (''chatMessage'', field_or kvs ''chatMessage'' Null)],
       n_actions = Arr [Obj [(''action'', Str ''open''), (''title'', Str ''Abrir'')],
                        Obj [(''action'', Str ''reply''), (''title'', Str ''Responder'')]]\<rparr>"
    using assms(1) by (simp add: push_data_def Let_def from_payload_Obj default_data_def)
  with assms(2) show ?thesis
    by (auto simp: sw_push_def landing_push_def Let_def)
qed

theorem push_fields_default_when_falsy_witness:
  "pm_json push_TB = Some (Obj payload_TB) \<and>
   fst (sw_push sw_config (Some push_TB)) = Str ''T'' \<and>
   o_body (snd (sw_push sw_config (Some push_TB))) = Str ''B'' \<and>
   o_icon (snd (sw_push sw_config (Some push_TB))) = Str ''/static/img/icon-192.png'' \<and>
   get_prop (o_data (snd (sw_push sw_config (Some push_TB)))) ''url'' = Some (Str ''/chat'') \<and>
   fst (landing_push landing_config (Some push_TB)) = Str ''T'' \<and>
   o_body (snd (landing_push landing_config (Some push_TB))) = Str ''B'' \<and>
   o_icon (snd (landing_push landing_config (Some push_TB))) = Str ''/icon-192.png'' \<and>
   get_prop (o_data (snd (landing_push landing_config (Some push_TB)))) ''url'' = Some (Str ''/chat'')"
proof -
  have h: "pm_json push_TB = Some (Obj payload_TB)" by (simp add: push_TB_def)
  have f: "field_or payload_TB ''title'' a = Str ''T''" "field_or payload_TB ''body'' a = Str ''B''"
    "field_or payload_TB ''icon'' a = a" "field_or payload_TB ''url'' a = Str ''/chat''" for a
    by (simp_all add: field_or_def absent_or_falsy_def payload_TB_def)
  have i: "icon_path sw_config = ''/static/img/icon-192.png''"
    "icon_path landing_config = ''/icon-192.png''"
    by (simp_all add: sw_config_def landing_config_def)
  show ?thesis
    using push_fields_default_when_falsy [OF h, of sw_push sw_config]
      push_fields_default_when_falsy [OF h, of landing_push landing_config] h
    by (simp add: f i)
qed

subsection \<open>Push: a body that is not JSON\<close>

text \<open>
  C5. For every push event whose body is not valid JSON (\<^verbatim>\<open>json()\<close> throws), either
  worker still shows a notification: its title is the default \<^verbatim>\<open>ColegiosPro\<close>, its
  body is the literal text of the message, and every other option is at its default.
\<close>

theorem push_unparsable_shows_text:
  assumes "pm_json d = None"
  shows "sw_push cfg (Some d) =
           (Str ''ColegiosPro'',
            \<lparr>o_body = Str (pm_text d), o_icon = Str (icon_path cfg), o_badge = Undefined,
             o_vibrate = Undefined, o_data = Undefined, o_actions = Undefined\<rparr>) \<and>
         landing_push cfg (Some d) =
           (Str ''ColegiosPro'',
            \<lparr>o_body = Str (pm_text d), o_icon = Str (icon_path cfg),
             o_badge = Str (icon_path cfg),
             o_vibrate = Undefined, o_data = Undefined, o_actions = Undefined\<rparr>)"
  using assms
  by (simp add: sw_push_def landing_push_def push_data_unparsable default_data_def Let_def
      js_or_def)

text \<open>The message \<^verbatim>\<open>hello\<close>.\<close>

theorem push_unparsable_shows_text_witness:
  "pm_json push_hello = None \<and>
   fst (sw_push sw_config (Some push_hello)) = Str ''ColegiosPro'' \<and>
   o_body (snd (sw_push sw_config (Some push_hello))) = Str ''hello'' \<and>
   fst (landing_push landing_config (Some push_hello)) = Str ''ColegiosPro'' \<and>
   o_body (snd (landing_push landing_config (Some push_hello))) = Str ''hello''"
proof -
  have h: "pm_json push_hello = None" by (simp add: push_hello_def)
  show ?thesis
    using push_unparsable_shows_text [OF h, of sw_config]
      push_unparsable_shows_text [OF h, of landing_config] h
    by (simp add: push_hello_def)
qed

subsection \<open>Notification click\<close>

text \<open>
  C6. On every click on a notification that a push listener of either worker has shown,
  the notification is dismissed, and then: if some window client's URL falls under the
  worker's origin, the first such client, and only that client, is focused and, when the
  notification's data envelope carries a chatMessage that is not \<^verbatim>\<open>null\<close>, it receives
  exactly one message \<^verbatim>\<open>{type: 'OPEN_CHAT', message: chatMessage}\<close>, and no window is
  opened; if there is no such client, exactly one window is opened, at the envelope's url,
  or at \<^verbatim>\<open>/\<close> when there is none.
\<close>

theorem notificationclick_on_pushed:
  assumes "f = sw_push \<or> f = landing_push" and "ndata = shown_data (snd (f cfg ev))"
  shows "notificationclick origin ndata cs =
     CloseNotification #
     (case find (under_origin origin) cs of
        Some c \<Rightarrow>
          Focus (client_id c) #
          (if envelope_chat_message ndata \<noteq> Null
           then [PostMessage (client_id c)
                   (Obj [(''type'', Str ''OPEN_CHAT''), (''message'', envelope_chat_message ndata)])]
           else [])
      | None \<Rightarrow> [OpenWindow (envelope_url ndata)])"
proof -
  from pushed_data [OF assms(1), of cfg ev] assms(2)
  consider "ndata = Null"
    | u m where "ndata = Obj [(''url'', u), (''chatMessage'', m)]" "truthy u" "m = Null \<or> truthy m"
    by auto
  then show ?thesis
  proof cases
    case 1
    then show ?thesis
      by (simp add: notificationclick_truthy opt_chain_def envelope_chat_message_def
          envelope_url_def split: option.splits)
  next
    case 2
    then show ?thesis
      by (auto simp: notificationclick_truthy opt_chain_def envelope_chat_message_def
          envelope_url_def split: option.splits)
  qed
qed

text \<open>
  A push with a chatMessage and an open tab; a push without one, with and without an
  open tab; a push that is not JSON, without a tab.
\<close>

theorem notificationclick_on_pushed_witness:
  "notificationclick the_origin (shown_data (snd (sw_push sw_config (Some push_chat))))
     [foreign_tab, tab, tab\<lparr>client_id := 8\<rparr>] =
     [CloseNotification, Focus 7,
      PostMessage 7 (Obj [(''type'', Str ''OPEN_CHAT''), (''message'', Str ''hola'')])] \<and>
   notificationclick the_origin (shown_data (snd (landing_push landing_config (Some push_TB))))
     [foreign_tab, tab] = [CloseNotification, Focus 7] \<and>
   notificationclick the_origin (shown_data (snd (landing_push landing_config (Some push_TB))))
     [foreign_tab] = [CloseNotification, OpenWindow (Str ''/chat'')] \<and>
   notificationclick the_origin (shown_data (snd (sw_push sw_config (Some push_hello)))) [] =
     [CloseNotification, OpenWindow (Str ''/'')]"
proof -
  have fs: "sw_push = sw_push \<or> sw_push = landing_push"
    and fl: "landing_push = sw_push \<or> landing_push = landing_push" by simp_all
  have d: "shown_data (snd (sw_push sw_config (Some push_chat))) =
      Obj [(''url'', Str ''/chat''), (''chatMessage'', Str ''hola'')]"
    "shown_data (snd (landing_push landing_config (Some push_TB))) =
      Obj [(''url'', Str ''/chat''), (''chatMessage'', Null)]"
    "shown_data (snd (sw_push sw_config (Some push_hello))) = Null"
    by code_simp+
  have f: "find (under_origin the_origin) [foreign_tab, tab, tab\<lparr>client_id := 8\<rparr>] = Some tab"
    "find (under_origin the_origin) [foreign_tab, tab] = Some tab"
    "find (under_origin the_origin) [foreign_tab] = None"
    "find (under_origin the_origin) [] = None"
    by code_simp+
  have i: "client_id tab = 7" by (simp add: tab_def)
  have e: "envelope_chat_message (Obj [(''url'', Str ''/chat''), (''chatMessage'', Str ''hola'')]) = Str ''hola''"
    "envelope_chat_message (Obj [(''url'', Str ''/chat''), (''chatMessage'', Null)]) = Null"
    "envelope_url (Obj [(''url'', Str ''/chat''), (''chatMessage'', Null)]) = Str ''/chat''"
    "envelope_url Null = Str ''/''"
    by (simp_all add: envelope_chat_message_def envelope_url_def)
  note t1 = notificationclick_on_pushed [OF fs refl, of the_origin sw_config "Some push_chat"
      "[foreign_tab, tab, tab\<lparr>client_id := 8\<rparr>]", unfolded d f e]
  note t2 = notificationclick_on_pushed [OF fl refl, of the_origin landing_config "Some push_TB"
      "[foreign_tab, tab]", unfolded d f e]
  note t3 = notificationclick_on_pushed [OF fl refl, of the_origin landing_config "Some push_TB"
      "[foreign_tab]", unfolded d f e]
  note t4 = notificationclick_on_pushed [OF fs refl, of the_origin sw_config "Some push_hello"
      "[]", unfolded d f e]
  show ?thesis
    unfolding d using t1 t2 t3 t4 by (simp add: i)
qed

subsection \<open>Message\<close>

text \<open>
  The application worker has no message listener: a \<^verbatim>\<open>SKIP_WAITING\<close> message leaves a
  waiting worker waiting, its flag unset.
\<close>

theorem message_skip_waiting_counterexample:
  "phase w_waiting = Installed \<and>
   sw_message skip_msg w_waiting = w_waiting \<and>
   phase (sw_message skip_msg w_waiting) = Installed \<and>
   \<not> skip_waiting_flag (sw_message skip_msg w_waiting)"
  by (simp add: sw_message_def w_waiting_def)

text \<open>
  C7, amended. In the landing worker, a message whose data is an object with \<^verbatim>\<open>type\<close>
  \<^verbatim>\<open>'SKIP_WAITING'\<close> calls \<^verbatim>\<open>skipWaiting\<close>: the flag is set and a waiting worker leaves
  the waiting state; a message with any other data leaves the world unchanged. In the
  application worker every message leaves the world unchanged.
\<close>

theorem landing_message_skip_waiting:
  "(is_skip_waiting d \<longrightarrow>
      landing_message d w = skipWaiting w \<and>
      skip_waiting_flag (landing_message d w) \<and>
      (phase w = Installed \<longrightarrow> phase (landing_message d w) = Activating)) \<and>
   (\<not> is_skip_waiting d \<longrightarrow> landing_message d w = w) \<and>
   sw_message d w = w"
  by (auto simp: landing_message_skip landing_message_other skipWaiting_def sw_message_def)

theorem landing_message_skip_waiting_witness:
  "is_skip_waiting skip_msg \<and> phase w_waiting = Installed \<and>
   phase (landing_message skip_msg w_waiting) = Activating \<and>
   skip_waiting_flag (landing_message skip_msg w_waiting) \<and>
   \<not> is_skip_waiting (Str ''hello'') \<and>
   landing_message (Str ''hello'') w_waiting = w_waiting"
  using landing_message_skip_waiting [of skip_msg w_waiting]
    landing_message_skip_waiting [of "Str ''hello''" w_waiting]
  by (simp add: is_skip_waiting_def skip_msg_def w_waiting_def skipWaiting_def)

subsection \<open>The two variants compared\<close>




text \<open>
  Outside that ground, an install in which every asset is answered 206: \<^verbatim>\<open>addAll\<close>
  rejects, the application worker catches the rejection and the landing worker does not.
\<close>

lemma variants_differ_at_206:
  "\<not> common_ground sw_config parse_at_origin (EvInstall net_206) \<and>
   fst (handle AppWorker sw_config the_origin parse_at_origin (EvInstall net_206) w_fresh) =
     InstallSettled Fulfilled \<and>
   fst (handle LandingWorker sw_config the_origin parse_at_origin (EvInstall net_206) w_fresh) =
     InstallSettled Rejected"
  by code_simp

subsection \<open>The worker's own cache across events\<close>

text \<open>
  C9. Across any sequence of events, in either variant: if the cache named
  \<^verbatim>\<open>CACHE_NAME\<close> exists, it exists afterwards, and every request it held a match for
  still has a match (the worker never deletes it); every cache of another name is
  afterwards as it was, or deleted (no listener writes to it); and a fetch event changes,
  in the cache named \<^verbatim>\<open>CACHE_NAME\<close>, at most what matches the intercepted request: the
  entry of its URL, the fragment set aside.
\<close>

theorem current_bucket_survives:
  "(cache_name cfg \<in> set (caches_keys (caches w)) \<longrightarrow>
      cache_name cfg \<in> set (caches_keys (caches (run v cfg origin parse es w)))) \<and>
   (\<forall>u. cache_match u (bucket (cache_name cfg) (caches w)) \<noteq> None \<longrightarrow>
      cache_match u (bucket (cache_name cfg) (caches (run v cfg origin parse es w))) \<noteq> None) \<and>
   (\<forall>n. n \<noteq> cache_name cfg \<longrightarrow>
      map_of (caches (run v cfg origin parse es w)) n = map_of (caches w) n \<or>
      map_of (caches (run v cfg origin parse es w)) n = None) \<and>
   (\<forall>net req u. \<not> same_resource u (req_url req) \<longrightarrow>
      cache_match u
        (bucket (cache_name cfg) (caches (snd (handle v cfg origin parse (EvFetch net req) w)))) =
      cache_match u (bucket (cache_name cfg) (caches w)))"
proof -
  have f: "\<forall>net req u. \<not> same_resource u (req_url req) \<longrightarrow>
      cache_match u
        (bucket (cache_name cfg) (caches (snd (handle v cfg origin parse (EvFetch net req) w)))) =
      cache_match u (bucket (cache_name cfg) (caches w))"
  proof (intro allI impI)
    fix net :: network and req :: request and u :: string
    assume "\<not> same_resource u (req_url req)"
    from fetch_other_resources [OF this, of cfg net w]
    show "cache_match u
        (bucket (cache_name cfg) (caches (snd (handle v cfg origin parse (EvFetch net req) w)))) =
      cache_match u (bucket (cache_name cfg) (caches w))"
      by (cases v) (simp_all add: sw_fetch_def landing_fetch_def case_prod_beta)
  qed
  note k = kept_run [of cfg w v origin parse es, unfolded kept_def]
  from k have a: "cache_name cfg \<in> set (caches_keys (caches w)) \<longrightarrow>
      cache_name cfg \<in> set (caches_keys (caches (run v cfg origin parse es w)))"
    by (rule conjunct1)
  from k have b: "\<forall>u. cache_match u (bucket (cache_name cfg) (caches w)) \<noteq> None \<longrightarrow>
      cache_match u (bucket (cache_name cfg) (caches (run v cfg origin parse es w))) \<noteq> None"
    by (rule conjunct2 [THEN conjunct1])
  from k have c: "\<forall>n. n \<noteq> cache_name cfg \<longrightarrow>
      map_of (caches (run v cfg origin parse es w)) n = map_of (caches w) n \<or>
      map_of (caches (run v cfg origin parse es w)) n = None"
    by (rule conjunct2 [THEN conjunct2])
  show ?thesis
    by (rule conjI [OF a conjI [OF b conjI [OF c f]]])
qed

text \<open>
  A failed install, activation, fetches online, with a 206 and of \<^verbatim>\<open>/demo#x\<close>, a push,
  a message and an offline fetch, starting with caches \<^verbatim>\<open>colegiospro-v0\<close> and
  \<^verbatim>\<open>colegiospro-v1\<close>; and one fetch of \<^verbatim>\<open>/other\<close>, which leaves the entry of
  \<^verbatim>\<open>/demo\<close> as it was.
\<close>

theorem current_bucket_survives_witness:
  "''colegiospro-v1'' \<in> set (caches_keys (caches w_old)) \<and>
   ''colegiospro-v1'' \<in>
     set (caches_keys (caches (run AppWorker sw_config the_origin parse_at_origin sample_events w_old))) \<and>
   cache_match ''https://colegiospro.example/demo''
     (bucket ''colegiospro-v1''
        (caches (run AppWorker sw_config the_origin parse_at_origin sample_events w_old))) \<noteq> None \<and>
   (map_of (caches (run AppWorker sw_config the_origin parse_at_origin sample_events w_old))
      ''colegiospro-v0'' = Some [(''https://colegiospro.example/'', r_old)] \<or>
    map_of (caches (run AppWorker sw_config the_origin parse_at_origin sample_events w_old))
      ''colegiospro-v0'' = None) \<and>
   cache_match ''https://colegiospro.example/demo''
     (bucket ''colegiospro-v1''
        (caches (snd (handle AppWorker sw_config the_origin parse_at_origin
                        (EvFetch net_up get_other) w_old)))) = Some r_old"
proof -
  have n: "cache_name sw_config = ''colegiospro-v1''" by (simp add: sw_config_def)
  have k: "''colegiospro-v1'' \<in> set (caches_keys (caches w_old))"
    by (simp add: w_old_def caches_keys_def)
  have h: "cache_match ''https://colegiospro.example/demo''
      (bucket ''colegiospro-v1'' (caches w_old)) = Some r_old"
    by code_simp
  then have m: "cache_match ''https://colegiospro.example/demo''
      (bucket ''colegiospro-v1'' (caches w_old)) \<noteq> None"
    by simp
  have o: "map_of (caches w_old) ''colegiospro-v0'' = Some [(''https://colegiospro.example/'', r_old)]"
    by (simp add: w_old_def)
  have d: "''colegiospro-v0'' \<noteq> ''colegiospro-v1''" by simp
  have x: "\<not> same_resource ''https://colegiospro.example/demo'' (req_url get_other)"
    by code_simp
  note t = current_bucket_survives [of sw_config w_old AppWorker the_origin parse_at_origin
      sample_events, unfolded n]
  have a: "''colegiospro-v1'' \<in>
      set (caches_keys (caches (run AppWorker sw_config the_origin parse_at_origin sample_events w_old)))"
    by (rule t [THEN conjunct1, THEN mp, OF k])
  have b: "cache_match ''https://colegiospro.example/demo''
     (bucket ''colegiospro-v1''
        (caches (run AppWorker sw_config the_origin parse_at_origin sample_events w_old))) \<noteq> None"
    by (rule t [THEN conjunct2, THEN conjunct1, THEN spec, THEN mp, OF m])
  have c: "map_of (caches (run AppWorker sw_config the_origin parse_at_origin sample_events w_old))
      ''colegiospro-v0'' = Some [(''https://colegiospro.example/'', r_old)] \<or>
    map_of (caches (run AppWorker sw_config the_origin parse_at_origin sample_events w_old))
      ''colegiospro-v0'' = None"
    using t [THEN conjunct2, THEN conjunct2, THEN conjunct1, THEN spec, THEN mp, OF d]
    unfolding o .
  have e: "cache_match ''https://colegiospro.example/demo''
     (bucket ''colegiospro-v1''
        (caches (snd (handle AppWorker sw_config the_origin parse_at_origin
                        (EvFetch net_up get_other) w_old)))) = Some r_old"
    using t [THEN conjunct2, THEN conjunct2, THEN conjunct2, THEN spec, THEN spec, THEN spec,
        THEN mp, OF x, of net_up]
    unfolding h .
  show ?thesis
    by (rule conjI [OF k conjI [OF a conjI [OF b conjI [OF c e]]]])
qed

text \<open>
  What that run leaves: the old cache is gone; the worker's cache holds \<^verbatim>\<open>/other\<close> and,
  in place of the entry of \<^verbatim>\<open>/demo\<close>, the response fetched for \<^verbatim>\<open>/demo#x\<close> (the 206
  before it was not stored); the failed install left one line on the console.
\<close>

lemma sample_run_caches:
  "caches (run AppWorker sw_config the_origin parse_at_origin sample_events w_old) =
     [(''colegiospro-v1'',
       [(''https://colegiospro.example/other'', r200),
        (''https://colegiospro.example/demo#x'', r200)])]"
  by code_simp

lemma sample_run_console:
  "console (run AppWorker sw_config the_origin parse_at_origin sample_events w_old) =
     [''Cache addAll failed:'']"
  by code_simp

subsection \<open>Push without a readable payload, and the click that follows\<close>

text \<open>
  The landing worker, for a body that is not JSON and for a push without data: the
  notification carries a badge, the default icon's path.
\<close>

theorem push_fallback_badge_counterexample:
  "pm_json push_hello = None \<and>
   o_badge (snd (landing_push landing_config (Some push_hello))) = Str ''/icon-192.png'' \<and>
   o_badge (snd (landing_push landing_config None)) = Str ''/icon-192.png''"
  by (simp add: push_hello_def landing_push_def push_data_def Let_def default_data_def
      landing_config_def js_or_def)

text \<open>
  C10, amended. For a push event whose data is absent, or whose body fails JSON parsing
  (or parses to \<^verbatim>\<open>null\<close>), the notification shown carries no data envelope, no action
  buttons and no vibration pattern: only the default title, the body text and the default
  icon, and in the landing worker also a badge, equal to the default icon. A later click
  on that notification never posts an \<^verbatim>\<open>OPEN_CHAT\<close> message: it focuses the first
  client under the origin, or opens a window at the default URL \<^verbatim>\<open>/\<close>.
\<close>

theorem push_fallback_then_click:
  assumes "\<not> payload_read ev"
  shows "sw_push cfg ev =
           (Str ''ColegiosPro'',
            \<lparr>o_body = (case ev of None \<Rightarrow> Str ''Tiene un nuevo mensaje''
                        | Some d \<Rightarrow> Str (pm_text d)),
             o_icon = Str (icon_path cfg), o_badge = Undefined,
             o_vibrate = Undefined, o_data = Undefined, o_actions = Undefined\<rparr>) \<and>
         landing_push cfg ev =
           (Str ''ColegiosPro'',
            \<lparr>o_body = (case ev of None \<Rightarrow> Str ''Tiene un nuevo mensaje''
                        | Some d \<Rightarrow> Str (pm_text d)),
             o_icon = Str (icon_path cfg), o_badge = Str (icon_path cfg),
             o_vibrate = Undefined, o_data = Undefined, o_actions = Undefined\<rparr>) \<and>
         shown_data (snd (sw_push cfg ev)) = Null \<and>
         shown_data (snd (landing_push cfg ev)) = Null \<and>
         notificationclick origin (shown_data (snd (sw_push cfg ev))) cs =
           CloseNotification #
           (case find (under_origin origin) cs of
              Some c \<Rightarrow> [Focus (client_id c)]
            | None \<Rightarrow> [OpenWindow (Str ''/'')]) \<and>
         notificationclick origin (shown_data (snd (landing_push cfg ev))) cs =
           CloseNotification #
           (case find (under_origin origin) cs of
              Some c \<Rightarrow> [Focus (client_id c)]
            | None \<Rightarrow> [OpenWindow (Str ''/'')])"
proof -
  have sw: "sw_push cfg ev =
           (Str ''ColegiosPro'',
            \<lparr>o_body = (case ev of None \<Rightarrow> Str ''Tiene un nuevo mensaje''
                        | Some d \<Rightarrow> Str (pm_text d)),
             o_icon = Str (icon_path cfg), o_badge = Undefined,
             o_vibrate = Undefined, o_data = Undefined, o_actions = Undefined\<rparr>)"
    by (simp add: sw_push_def Let_def push_data_fallback [OF assms] default_data_def)
  have ld: "landing_push cfg ev =
           (Str ''ColegiosPro'',
            \<lparr>o_body = (case ev of None \<Rightarrow> Str ''Tiene un nuevo mensaje''
                        | Some d \<Rightarrow> Str (pm_text d)),
             o_icon = Str (icon_path cfg), o_badge = Str (icon_path cfg),
             o_vibrate = Undefined, o_data = Undefined, o_actions = Undefined\<rparr>)"
    by (simp add: landing_push_def Let_def push_data_fallback [OF assms] default_data_def js_or_def)
  have n: "shown_data (snd (sw_push cfg ev)) = Null" "shown_data (snd (landing_push cfg ev)) = Null"
    by (simp_all add: sw ld shown_data_def)
  show ?thesis
    unfolding n click_no_data using sw ld by simp
qed

theorem push_fallback_then_click_witness:
  "\<not> payload_read (Some push_hello) \<and> \<not> payload_read None \<and>
   o_data (snd (sw_push sw_config (Some push_hello))) = Undefined \<and>
   o_actions (snd (sw_push sw_config (Some push_hello))) = Undefined \<and>
   o_badge (snd (sw_push sw_config (Some push_hello))) = Undefined \<and>
   o_body (snd (sw_push sw_config (Some push_hello))) = Str ''hello'' \<and>
   o_body (snd (landing_push landing_config None)) = Str ''Tiene un nuevo mensaje'' \<and>
   notificationclick the_origin (shown_data (snd (sw_push sw_config (Some push_hello)))) [tab] =
     [CloseNotification, Focus 7] \<and>
   notificationclick the_origin (shown_data (snd (landing_push landing_config None))) [foreign_tab] =
     [CloseNotification, OpenWindow (Str ''/'')]"
proof -
  have h: "\<not> payload_read (Some push_hello)" "\<not> payload_read None"
    by (simp_all add: payload_read_def push_hello_def)
  have f: "find (under_origin the_origin) [tab] = Some tab"
    "find (under_origin the_origin) [foreign_tab] = None"
    by (simp_all add: under_origin_def the_origin_def tab_def foreign_tab_def)
  have t: "pm_text push_hello = ''hello''" "client_id tab = 7"
    by (simp_all add: push_hello_def tab_def)
  note t1 = push_fallback_then_click [OF h(1), of sw_config the_origin "[tab]"]
  note t2 = push_fallback_then_click [OF h(2), of landing_config the_origin "[foreign_tab]"]
  from t1 have a: "sw_push sw_config (Some push_hello) =
      (Str ''ColegiosPro'',
       \<lparr>o_body = Str ''hello'', o_icon = Str (icon_path sw_config), o_badge = Undefined,
        o_vibrate = Undefined, o_data = Undefined, o_actions = Undefined\<rparr>)"
    by (simp add: t)
  from t2 have b: "landing_push landing_config None =
      (Str ''ColegiosPro'',
       \<lparr>o_body = Str ''Tiene un nuevo mensaje'', o_icon = Str (icon_path landing_config),
        o_badge = Str (icon_path landing_config),
        o_vibrate = Undefined, o_data = Undefined, o_actions = Undefined\<rparr>)"
    by simp
  have c: "notificationclick the_origin
      (shown_data (snd (sw_push sw_config (Some push_hello)))) [tab] = [CloseNotification, Focus 7]"
    using t1 [unfolded f, THEN conjunct2, THEN conjunct2, THEN conjunct2, THEN conjunct2,
        THEN conjunct1]
    by (simp add: t)
  have d: "notificationclick the_origin
      (shown_data (snd (landing_push landing_config None))) [foreign_tab] =
      [CloseNotification, OpenWindow (Str ''/'')]"
    using t2 [unfolded f, THEN conjunct2, THEN conjunct2, THEN conjunct2, THEN conjunct2,
        THEN conjunct2]
    by simp
  show ?thesis
    unfolding c d using h by (simp add: a b)
qed

end
